theory Spec2Isabelle
  imports
    Main
    "HOL-Library.Log_Nat"
    "HOL-Library.Sublist"
    "HOL-Library.Char_ord"
    "HOL-Library.List_Lexorder"
begin

section \<open>The coherence scanner \<open>heimgeist.sichter.kohaerenz\<close>\<close>

text \<open>
  A shallow embedding of \<^verbatim>\<open>scripts/heimgeist_sichter_kohaerenz.py\<close>: the rules that
  inspect a parsed wc-merger snapshot and the uncertainty score.

  Modelling decisions.
  \<^item> A Python \<^verbatim>\<open>str\<close> is a \<open>string\<close> holding its UTF-8 bytes. The source only
    compares strings, tests prefixes, strips the ASCII character \<^verbatim>\<open>/\<close>, concatenates and
    sorts them; on UTF-8 each of these agrees with the same operation on code points
    (byte-wise lexicographic order is code-point order).
  \<^item> A parsed JSON value is a \<open>json\<close>; Python's \<^verbatim>\<open>None\<close> is \<open>JNull\<close>; a \<^verbatim>\<open>dict\<close>
    is an association list read with \<open>map_of\<close> (keys of a parsed object are distinct).
  \<^item> A finite Python \<^verbatim>\<open>float\<close> is the rational number it denotes; the sum of two
    floats is rounded to the nearest double (\<open>fadd\<close>), as the hardware does.
  \<^item> \<^verbatim>\<open>str()\<close>, \<^verbatim>\<open>repr()\<close>, \<^verbatim>\<open>str.strip()\<close> and \<^verbatim>\<open>str.lower()\<close> are functions of
    the Python library (Unicode tables, float printing); they are parameters of the
    model, collected in a \<open>pylib\<close>.
  \<^item> An uncaught Python exception is an \<open>error\<close> returned on the left of a sum.
\<close>

subsection \<open>Parsed documents\<close>

datatype pyfloat = Finite rat | PosInf | NegInf | NaN

datatype json =
    JNull
  | JBool bool
  | JInt int
  | JFloat pyfloat
  | JStr string
  | JList "json list"
  | JDict "(string \<times> json) list"

type_synonym pydict = "(string \<times> json) list"

text \<open>\<open>ShapeError\<close> is the error the specification names; the source never raises it.\<close>

datatype error = AttributeError | ShapeError

record pylib =
  py_str :: "json \<Rightarrow> string"
  py_repr :: "string \<Rightarrow> string"
  py_strip :: "string \<Rightarrow> string"
  py_lower :: "string \<Rightarrow> string"

text \<open>\<^verbatim>\<open>d.get(k, default)\<close> on a dict.\<close>

definition dict_get :: "pydict \<Rightarrow> string \<Rightarrow> json \<Rightarrow> json" where
  "dict_get d k dflt = (case map_of d k of None \<Rightarrow> dflt | Some v \<Rightarrow> v)"

text \<open>\<^verbatim>\<open>obj.get(k, default)\<close> on any parsed value: only a dict has the attribute.\<close>

definition attr_get :: "json \<Rightarrow> string \<Rightarrow> json \<Rightarrow> error + json" where
  "attr_get obj k dflt =
     (case obj of JDict d \<Rightarrow> Inr (dict_get d k dflt) | _ \<Rightarrow> Inl AttributeError)"

fun safe_get :: "json \<Rightarrow> string list \<Rightarrow> json \<Rightarrow> json" where
  "safe_get cur [] dflt = cur"
| "safe_get cur (k # ks) dflt =
     (case cur of
        JDict d \<Rightarrow> (case map_of d k of None \<Rightarrow> dflt | Some v \<Rightarrow> safe_get v ks dflt)
      | _ \<Rightarrow> dflt)"

text \<open>\<^verbatim>\<open>isinstance(x, dict)\<close>, \<^verbatim>\<open>isinstance(x, str)\<close>, \<^verbatim>\<open>isinstance(x, int)\<close> and
  \<^verbatim>\<open>isinstance(x, (int, float))\<close>. In Python \<^verbatim>\<open>bool\<close> is a subclass of \<^verbatim>\<open>int\<close>.\<close>

fun is_dict :: "json \<Rightarrow> bool" where
  "is_dict (JDict d) = True"
| "is_dict v = False"

fun is_str :: "json \<Rightarrow> bool" where
  "is_str (JStr s) = True"
| "is_str v = False"

fun is_int :: "json \<Rightarrow> bool" where
  "is_int (JInt i) = True"
| "is_int (JBool b) = True"
| "is_int v = False"

fun is_int_or_float :: "json \<Rightarrow> bool" where
  "is_int_or_float (JInt i) = True"
| "is_int_or_float (JBool b) = True"
| "is_int_or_float (JFloat x) = True"
| "is_int_or_float v = False"

text \<open>\<^verbatim>\<open>x < c\<close> for a number \<open>x\<close> and a finite float \<open>c\<close>: Python compares an int with a
  float exactly; \<^verbatim>\<open>True\<close> and \<^verbatim>\<open>False\<close> count as 1 and 0; every comparison with NaN
  is false.\<close>

fun num_less :: "json \<Rightarrow> rat \<Rightarrow> bool" where
  "num_less (JInt i) c = (of_int i < c)"
| "num_less (JBool b) c = ((if b then 1 else 0) < c)"
| "num_less (JFloat (Finite q)) c = (q < c)"
| "num_less (JFloat NegInf) c = True"
| "num_less (JFloat PosInf) c = False"
| "num_less (JFloat NaN) c = False"
| "num_less v c = False"

text \<open>Truth value of a parsed value (\<^verbatim>\<open>bool(x)\<close>); NaN and the infinities are true.\<close>

fun truthy :: "json \<Rightarrow> bool" where
  "truthy JNull = False"
| "truthy (JBool b) = b"
| "truthy (JInt i) = (i \<noteq> 0)"
| "truthy (JFloat (Finite q)) = (q \<noteq> 0)"
| "truthy (JFloat x) = True"
| "truthy (JStr s) = (s \<noteq> [])"
| "truthy (JList xs) = (xs \<noteq> [])"
| "truthy (JDict d) = (d \<noteq> [])"

subsection \<open>Double-precision addition\<close>

text \<open>\<open>round_double\<close> rounds a rational to the nearest number with a 53-bit significand,
  ties to the even significand (IEEE 754 binary64 without its exponent limits: every
  value below lies between \<open>1/8\<close> and \<open>1\<close>). A decimal literal denotes the rounded
  value of its decimal fraction.\<close>

definition float_exponent :: "rat \<Rightarrow> int" where
  "float_exponent x =
     (let (a, b) = quotient_of \<bar>x\<bar>; e0 = bitlen a - bitlen b
      in if 2 powi e0 \<le> \<bar>x\<bar> then e0 else e0 - 1)"

definition round_double :: "rat \<Rightarrow> rat" where
  "round_double x =
     (if x = 0 then 0
      else let u = 2 powi (float_exponent x - 52);
               q = x / u;
               n = \<lfloor>q\<rfloor>;
               r = q - of_int n;
               m = (if r < 1 / 2 then n else if 1 / 2 < r then n + 1
                    else if even n then n else n + 1)
           in of_int m * u)"

definition fadd :: "rat \<Rightarrow> rat \<Rightarrow> rat" where
  "fadd a b = round_double (a + b)"

subsection \<open>Strings\<close>

abbreviation ae :: string where "ae \<equiv> [CHR 0xC3, CHR 0xA4]"
abbreviation oe :: string where "oe \<equiv> [CHR 0xC3, CHR 0xB6]"
abbreviation ue :: string where "ue \<equiv> [CHR 0xC3, CHR 0xBC]"
abbreviation sz :: string where "sz \<equiv> [CHR 0xC3, CHR 0x9F]"
abbreviation ndash :: string where "ndash \<equiv> [CHR 0xE2, CHR 0x80, CHR 0x93]"
abbreviation hellip :: string where "hellip \<equiv> [CHR 0xE2, CHR 0x80, CHR 0xA6]"

text \<open>\<^verbatim>\<open>s.rstrip("/")\<close> and \<^verbatim>\<open>sep.join(xs)\<close>.\<close>

definition rstrip_slash :: "string \<Rightarrow> string" where
  "rstrip_slash s = rev (dropWhile (\<lambda>c. c = CHR ''/'') (rev s))"

fun join :: "string \<Rightarrow> string list \<Rightarrow> string" where
  "join sep [] = []"
| "join sep [x] = x"
| "join sep (x # y # ys) = x @ sep @ join sep (y # ys)"

subsection \<open>Findings and reports\<close>

record finding =
  severity :: string
  code :: string
  title :: string
  detail :: string

record uncertainty_assessment =
  uncertainty_score :: rat
  causes :: "string list"
  note_text :: string

record report =
  generated_at :: string
  agent :: string
  input_path :: string
  meta :: pydict
  scope :: string
  coverage_pct :: "json option"
  files_total :: "json option"
  findings :: "finding list"
  uncertainty :: uncertainty_assessment

subsection \<open>File records\<close>

definition list_files :: "json \<Rightarrow> error + pydict list" where
  "list_files doc =
     (case attr_get doc ''files'' JNull of
        Inl e \<Rightarrow> Inl e
      | Inr files \<Rightarrow>
          (case files of
             JList xs \<Rightarrow> Inr (List.map_filter (\<lambda>x. case x of JDict d \<Rightarrow> Some d | _ \<Rightarrow> None) xs)
           | _ \<Rightarrow> Inr []))"

text \<open>The string under \<^verbatim>\<open>"path"\<close> of a file record, if there is one.\<close>

definition path_of :: "pydict \<Rightarrow> string option" where
  "path_of f = (case dict_get f ''path'' JNull of JStr p \<Rightarrow> Some p | _ \<Rightarrow> None)"

fun path_set_loop :: "pydict list \<Rightarrow> string set \<Rightarrow> string set" where
  "path_set_loop [] out = out"
| "path_set_loop (f # fs) out =
     (case path_of f of
        Some p \<Rightarrow> path_set_loop fs (insert p out)
      | None \<Rightarrow> path_set_loop fs out)"

definition path_set :: "pydict list \<Rightarrow> string set" where
  "path_set files = path_set_loop files {}"

fun count_duplicates_loop :: "pydict list \<Rightarrow> string set \<Rightarrow> string set \<Rightarrow> string set" where
  "count_duplicates_loop [] seen dups = dups"
| "count_duplicates_loop (f # fs) seen dups =
     (case path_of f of
        None \<Rightarrow> count_duplicates_loop fs seen dups
      | Some p \<Rightarrow>
          count_duplicates_loop fs (insert p seen) (if p \<in> seen then insert p dups else dups))"

definition count_duplicates :: "pydict list \<Rightarrow> string list" where
  "count_duplicates files = sorted_list_of_set (count_duplicates_loop files {} {})"

subsection \<open>Expected markers\<close>

definition has_prefix :: "string set \<Rightarrow> string \<Rightarrow> bool" where
  "has_prefix paths pre = (\<exists>p \<in> paths. prefix (rstrip_slash pre @ ''/'') p)"

definition finding_001 :: finding where
  "finding_001 = \<lparr>severity = ''warn'', code = ''HG-SICHTER-001'',
     title = ''Kein .ai-context.yml sichtbar'',
     detail = ''Viele Heimgewebe-Repos nutzen .ai-context.yml als Orientierungsanker. Fehlt hier (oder wurde durch Filter ausgeschlossen).''\<rparr>"

definition finding_002 :: finding where
  "finding_002 = \<lparr>severity = ''warn'', code = ''HG-SICHTER-002'',
     title = ''Kein .wgx/ sichtbar'',
     detail = ''WGX-Motorik fehlt im Snapshot (oder wurde herausgefiltert). Falls das Repo zur Fleet geh''
       @ oe @ ''rt, ist das ein Drift-Signal.''\<rparr>"

definition finding_003 :: finding where
  "finding_003 = \<lparr>severity = ''info'', code = ''HG-SICHTER-003'',
     title = ''Kein contracts/ sichtbar'',
     detail = ''Nicht jedes Repo braucht Contracts. F'' @ ue
       @ ''r zentrale Repos kann das aber ein Hinweis auf semantische Entkopplung sein.''\<rparr>"

definition finding_004 :: finding where
  "finding_004 = \<lparr>severity = ''info'', code = ''HG-SICHTER-004'',
     title = ''Keine docs/ sichtbar'',
     detail = ''Dokumentation fehlt im Snapshot (oder wurde durch Filter ausgeschlossen). Das ist nicht per se falsch, aber erh''
       @ oe @ ''ht Integrationsrisiko.''\<rparr>"

definition finding_005 :: finding where
  "finding_005 = \<lparr>severity = ''info'', code = ''HG-SICHTER-005'',
     title = ''Keine GitHub Workflows sichtbar'',
     detail = ''Kein CI sichtbar. Wenn das Repo produktiv ist, k'' @ oe
       @ ''nnte das technische Schulden anzeigen '' @ ndash
       @ '' oder der Snapshot ist stark gefiltert.''\<rparr>"

definition heuristic_expected_markers :: "string set \<Rightarrow> finding list" where
  "heuristic_expected_markers paths =
     (if ''.ai-context.yml'' \<notin> paths \<and> \<not> has_prefix paths ''.ai-context.yml/''
      then [finding_001] else [])
     @ (if \<not> has_prefix paths ''.wgx/'' then [finding_002] else [])
     @ (if \<not> has_prefix paths ''contracts/'' then [finding_003] else [])
     @ (if \<not> has_prefix paths ''docs/'' \<and> \<not> has_prefix paths ''doc/''
        then [finding_004] else [])
     @ (if \<not> has_prefix paths ''.github/workflows/'' then [finding_005] else [])"

subsection \<open>Metadata sanity\<close>

definition finding_010 :: "pylib \<Rightarrow> json \<Rightarrow> json \<Rightarrow> finding" where
  "finding_010 L contract ver = \<lparr>severity = ''crit'', code = ''HG-SICHTER-010'',
     title = ''Unerwarteter Merge-Contract'',
     detail = ''Erwartet wc-merge-agent/v1, gefunden: '' @ py_str L contract @ ''/''
       @ py_str L ver @ ''. Ergebnis ist nur eingeschr'' @ ae @ ''nkt interpretierbar.''\<rparr>"

definition finding_011 :: "pylib \<Rightarrow> json \<Rightarrow> finding" where
  "finding_011 L coverage = \<lparr>severity = ''warn'', code = ''HG-SICHTER-011'',
     title = ''Coverage < 95%'',
     detail = ''Coverage '' @ py_str L coverage
       @ ''%: Hohe Chance auf blinde Flecken. Befunde sind eher Tendenzen als Aussagen.''\<rparr>"

definition finding_012 :: "pylib \<Rightarrow> json \<Rightarrow> finding" where
  "finding_012 L max_file_bytes = \<lparr>severity = ''warn'', code = ''HG-SICHTER-012'',
     title = ''Datei-K'' @ ue @ ''rzung aktiv (max_file_bytes != 0)'',
     detail = ''max_file_bytes='' @ py_str L max_file_bytes
       @ ''. Das ist semantisch riskant (Teilwahrheiten). Split w'' @ ae @ ''re besser.''\<rparr>"

definition finding_013 :: "pylib \<Rightarrow> string \<Rightarrow> finding" where
  "finding_013 L path_filter = \<lparr>severity = ''info'', code = ''HG-SICHTER-013'',
     title = ''Path-Filter aktiv'',
     detail = ''path_filter='' @ py_repr L path_filter @ ''. Marker k'' @ oe
       @ ''nnen fehlen, weil sie au'' @ sz @ ''erhalb des Scope liegen.''\<rparr>"

definition finding_014 :: "pylib \<Rightarrow> string \<Rightarrow> finding" where
  "finding_014 L ext_filter = \<lparr>severity = ''info'', code = ''HG-SICHTER-014'',
     title = ''Extension-Filter aktiv'',
     detail = ''ext_filter='' @ py_repr L ext_filter
       @ ''. Struktur-Befunde sind ggf. verzerrt.''\<rparr>"

definition finding_015 :: "string list \<Rightarrow> finding" where
  "finding_015 dups = \<lparr>severity = ''crit'', code = ''HG-SICHTER-015'',
     title = ''Doppelte Dateipfade im Merge'',
     detail = ''Folgende Pfade sind mehrfach enthalten: '' @ join '', '' (take 50 dups)
       @ (if 50 < length dups then '' '' @ hellip else [])\<rparr>"

definition finding_016 :: "pylib \<Rightarrow> string \<Rightarrow> finding" where
  "finding_016 L profile = \<lparr>severity = ''info'', code = ''HG-SICHTER-016'',
     title = ''Profil ist nicht maximal'',
     detail = ''profile='' @ py_repr L profile @ ''. F'' @ ue @ ''r Koh'' @ ae
       @ ''renz-Checks ist max oft sinnvoller (weniger blinde Flecken).''\<rparr>"

definition finding_017 :: finding where
  "finding_017 = \<lparr>severity = ''warn'', code = ''HG-SICHTER-017'',
     title = ''Scope nicht angegeben'',
     detail = ''scope fehlt/leer. Mehrdeutigkeit steigt: Ist es ein Single-Repo- oder Multi-Repo-Snapshot?''\<rparr>"

text \<open>\<^verbatim>\<open>isinstance(x, str) and x.strip()\<close>.\<close>

definition nonblank_str :: "pylib \<Rightarrow> json \<Rightarrow> bool" where
  "nonblank_str L x = (case x of JStr s \<Rightarrow> py_strip L s \<noteq> [] | _ \<Rightarrow> False)"

definition str_of :: "json \<Rightarrow> string" where
  "str_of x = (case x of JStr s \<Rightarrow> s | _ \<Rightarrow> [])"

text \<open>The rules of \<^verbatim>\<open>_meta_sanity\<close>, once its local variables are bound.\<close>

definition meta_rules ::
  "pylib \<Rightarrow> json \<Rightarrow> json \<Rightarrow> json \<Rightarrow> json \<Rightarrow> json \<Rightarrow> json \<Rightarrow> json \<Rightarrow> pydict list \<Rightarrow> finding list" where
  "meta_rules L contract ver profile coverage max_file_bytes scope_v filters files =
     (let path_filter = (case filters of JDict d \<Rightarrow> dict_get d ''path_filter'' JNull | _ \<Rightarrow> JNull);
          ext_filter = (case filters of JDict d \<Rightarrow> dict_get d ''ext_filter'' JNull | _ \<Rightarrow> JNull);
          dups = count_duplicates files
      in (if contract \<noteq> JStr ''wc-merge-agent'' \<or> ver \<noteq> JStr ''v1''
          then [finding_010 L contract ver] else [])
       @ (if is_int_or_float coverage \<and> num_less coverage 95
          then [finding_011 L coverage] else [])
       @ (if is_int max_file_bytes \<and> max_file_bytes \<noteq> JInt 0 \<and> max_file_bytes \<noteq> JBool False
          then [finding_012 L max_file_bytes] else [])
       @ (if nonblank_str L path_filter then [finding_013 L (str_of path_filter)] else [])
       @ (if nonblank_str L ext_filter then [finding_014 L (str_of ext_filter)] else [])
       @ (if dups \<noteq> [] then [finding_015 dups] else [])
       @ (if (case profile of JStr s \<Rightarrow> py_lower L s \<in> {''dev'', ''min''} | _ \<Rightarrow> False)
          then [finding_016 L (str_of profile)] else [])
       @ (if \<not> nonblank_str L scope_v then [finding_017] else []))"

definition meta_sanity :: "pylib \<Rightarrow> json \<Rightarrow> pydict list \<Rightarrow> error + finding list" where
  "meta_sanity L doc files =
     (let contract = safe_get doc [''meta'', ''contract''] JNull;
          ver = safe_get doc [''meta'', ''contract_version''] JNull;
          profile = safe_get doc [''meta'', ''profile''] JNull;
          coverage = safe_get doc [''coverage'', ''coverage_pct''] JNull;
          max_file_bytes = safe_get doc [''meta'', ''max_file_bytes''] JNull
      in case attr_get doc ''scope'' JNull of
           Inl e \<Rightarrow> Inl e
         | Inr scope_v \<Rightarrow>
             (case attr_get doc ''meta'' (JDict []) of
                Inl e \<Rightarrow> Inl e
              | Inr m \<Rightarrow>
                  (case attr_get m ''filters'' (JDict []) of
                     Inl e \<Rightarrow> Inl e
                   | Inr filters \<Rightarrow>
                       Inr (meta_rules L contract ver profile coverage max_file_bytes
                              scope_v filters files))))"

subsection \<open>Uncertainty\<close>

text \<open>The three conditions under which \<^verbatim>\<open>_uncertainty\<close> raises the score.\<close>

definition coverage_incomplete :: "json \<Rightarrow> bool" where
  "coverage_incomplete doc =
     (let coverage = safe_get doc [''coverage'', ''coverage_pct''] JNull
      in is_int_or_float coverage \<and> num_less coverage 100)"

definition filters_active :: "json \<Rightarrow> bool" where
  "filters_active doc =
     (let filters = safe_get doc [''meta'', ''filters''] (JDict [])
      in case filters of
           JDict d \<Rightarrow> truthy (dict_get d ''path_filter'' JNull)
                      \<or> truthy (dict_get d ''ext_filter'' JNull)
         | _ \<Rightarrow> False)"

definition reduced_context :: "json \<Rightarrow> bool" where
  "reduced_context doc =
     (let plan_only = safe_get doc [''meta'', ''plan_only''] JNull;
          code_only = safe_get doc [''meta'', ''code_only''] JNull
      in plan_only = JBool True \<or> code_only = JBool True)"

definition cause_coverage :: string where
  "cause_coverage = ''Coverage < 100%: Snapshot ist unvollst'' @ ae @ ''ndig (blinde Flecken).''"

definition cause_filters :: string where
  "cause_filters = ''Filter aktiv: Struktur-Befunde k'' @ oe @ ''nnen verzerrt sein.''"

definition cause_context :: string where
  "cause_context = ''plan_only/code_only: Semantischer Kontext fehlt teilweise.''"

definition cause_none :: string where
  "cause_none = ''Keine dominanten Ungewissheits-Treiber erkannt (aber Snapshot bleibt Snapshot).''"

text \<open>The score and the causes before the clamp (lines 254 to 267 of the source).\<close>

definition uncertainty_raw :: "json \<Rightarrow> rat \<times> string list" where
  "uncertainty_raw doc =
     (let causes0 = [];
          score0 = round_double (18 / 100);
          (score1, causes1) =
            (if coverage_incomplete doc
             then (fadd score0 (round_double (10 / 100)), causes0 @ [cause_coverage])
             else (score0, causes0));
          (score2, causes2) =
            (if filters_active doc
             then (fadd score1 (round_double (8 / 100)), causes1 @ [cause_filters])
             else (score1, causes1));
          (score3, causes3) =
            (if reduced_context doc
             then (fadd score2 (round_double (12 / 100)), causes2 @ [cause_context])
             else (score2, causes2))
      in (score3, causes3))"

definition uncertainty_of :: "json \<Rightarrow> uncertainty_assessment" where
  "uncertainty_of doc =
     (let (score3, causes3) = uncertainty_raw doc;
          score4 = max 0 (min (round_double (95 / 100)) score3)
      in \<lparr>uncertainty_score = score4,
          causes = (if causes3 \<noteq> [] then causes3 else [cause_none]),
          note_text = ''Ungewissheit ist hier produktiv: Sie verhindert, dass Snapshot-Befunde als Live-Wahrheit missverstanden werden.''\<rparr>)"

subsection \<open>The report\<close>

text \<open>\<open>now\<close> is the value of \<^verbatim>\<open>_now_iso()\<close>, \<open>ipath\<close> that of \<^verbatim>\<open>str(input_path)\<close>.\<close>

definition build_report :: "pylib \<Rightarrow> json \<Rightarrow> string \<Rightarrow> string \<Rightarrow> error + report" where
  "build_report L doc ipath now =
     (case list_files doc of
        Inl e \<Rightarrow> Inl e
      | Inr files \<Rightarrow>
          (case attr_get doc ''meta'' JNull of
             Inl e \<Rightarrow> Inl e
           | Inr m \<Rightarrow>
               (case attr_get doc ''scope'' JNull of
                  Inl e \<Rightarrow> Inl e
                | Inr s \<Rightarrow>
                    (let paths = path_set files;
                         coverage = safe_get doc [''coverage'', ''coverage_pct''] JNull;
                         total = safe_get doc [''meta'', ''total_files''] JNull
                     in case meta_sanity L doc files of
                          Inl e \<Rightarrow> Inl e
                        | Inr ms \<Rightarrow>
                            Inr \<lparr>generated_at = now,
                                 agent = ''heimgeist.sichter.koh'' @ ae @ ''renz'',
                                 input_path = ipath,
                                 meta = (case m of JDict d \<Rightarrow> d | _ \<Rightarrow> []),
                                 scope = (case s of JStr x \<Rightarrow> x | _ \<Rightarrow> []),
                                 coverage_pct =
                                   (if is_int_or_float coverage then Some coverage else None),
                                 files_total = (if is_int total then Some total else None),
                                 findings = ms @ heuristic_expected_markers paths,
                                 uncertainty = uncertainty_of doc\<rparr>))))"

subsection \<open>The structured mirror\<close>

text \<open>\<^verbatim>\<open>asdict(rep)\<close>, the value that \<^verbatim>\<open>main\<close> hands to \<^verbatim>\<open>json.dumps\<close>: every dataclass
  becomes a dict of its fields, lists and dicts are copied.\<close>

definition finding_asdict :: "finding \<Rightarrow> json" where
  "finding_asdict f =
     JDict [(''severity'', JStr (severity f)), (''code'', JStr (code f)),
            (''title'', JStr (title f)), (''detail'', JStr (detail f))]"

definition uncertainty_asdict :: "uncertainty_assessment \<Rightarrow> json" where
  "uncertainty_asdict u =
     JDict [(''uncertainty_score'', JFloat (Finite (uncertainty_score u))),
            (''causes'', JList (map JStr (causes u))),
            (''note'', JStr (note_text u))]"

definition opt_json :: "json option \<Rightarrow> json" where
  "opt_json x = (case x of None \<Rightarrow> JNull | Some v \<Rightarrow> v)"

definition asdict :: "report \<Rightarrow> json" where
  "asdict r =
     JDict [(''generated_at'', JStr (generated_at r)),
            (''agent'', JStr (agent r)),
            (''input_path'', JStr (input_path r)),
            (''meta'', JDict (meta r)),
            (''scope'', JStr (scope r)),
            (''coverage_pct'', opt_json (coverage_pct r)),
            (''files_total'', opt_json (files_total r)),
            (''findings'', JList (map finding_asdict (findings r))),
            (''uncertainty'', uncertainty_asdict (uncertainty r))]"

text \<open>Reading the mirror back, field by field under the field's name. The source has no
  reader; this one follows the specification's sentence on round-trip fidelity.\<close>

definition get_str :: "pydict \<Rightarrow> string \<Rightarrow> string option" where
  "get_str d k = (case map_of d k of Some (JStr s) \<Rightarrow> Some s | _ \<Rightarrow> None)"

definition json_opt :: "json \<Rightarrow> json option" where
  "json_opt v = (case v of JNull \<Rightarrow> None | _ \<Rightarrow> Some v)"

definition finding_of_mirror :: "json \<Rightarrow> finding option" where
  "finding_of_mirror v =
     (case v of
        JDict d \<Rightarrow>
          (case (get_str d ''severity'', get_str d ''code'', get_str d ''title'',
                 get_str d ''detail'') of
             (Some s, Some c, Some t, Some x) \<Rightarrow>
               Some \<lparr>severity = s, code = c, title = t, detail = x\<rparr>
           | _ \<Rightarrow> None)
      | _ \<Rightarrow> None)"

definition str_of_mirror :: "json \<Rightarrow> string option" where
  "str_of_mirror v = (case v of JStr s \<Rightarrow> Some s | _ \<Rightarrow> None)"

definition uncertainty_of_mirror :: "json \<Rightarrow> uncertainty_assessment option" where
  "uncertainty_of_mirror v =
     (case v of
        JDict d \<Rightarrow>
          (case (map_of d ''uncertainty_score'', map_of d ''causes'', get_str d ''note'') of
             (Some (JFloat (Finite q)), Some (JList cs), Some n) \<Rightarrow>
               (case those (map str_of_mirror cs) of
                  Some ss \<Rightarrow> Some \<lparr>uncertainty_score = q, causes = ss, note_text = n\<rparr>
                | None \<Rightarrow> None)
           | _ \<Rightarrow> None)
      | _ \<Rightarrow> None)"

definition report_of_mirror :: "json \<Rightarrow> report option" where
  "report_of_mirror v =
     (case v of
        JDict d \<Rightarrow>
          (case (get_str d ''generated_at'', get_str d ''agent'', get_str d ''input_path'',
                 map_of d ''meta'', get_str d ''scope'', map_of d ''coverage_pct'',
                 map_of d ''files_total'', map_of d ''findings'', map_of d ''uncertainty'') of
             (Some g, Some a, Some i, Some (JDict m), Some s, Some c, Some t,
              Some (JList fs), Some u) \<Rightarrow>
               (case (those (map finding_of_mirror fs), uncertainty_of_mirror u) of
                  (Some fs', Some u') \<Rightarrow>
                    Some \<lparr>generated_at = g, agent = a, input_path = i, meta = m, scope = s,
                          coverage_pct = json_opt c, files_total = json_opt t,
                          findings = fs', uncertainty = u'\<rparr>
                | _ \<Rightarrow> None)
           | _ \<Rightarrow> None)
      | _ \<Rightarrow> None)"

subsection \<open>Notions used in the statements\<close>

text \<open>The file records of a document (none when \<^verbatim>\<open>_list_files\<close> raises), the string
  paths of file records in document order, and the paths carried by two records or more.\<close>

definition file_records :: "json \<Rightarrow> pydict list" where
  "file_records doc = (case list_files doc of Inr fs \<Rightarrow> fs | Inl e \<Rightarrow> [])"

definition str_paths :: "pydict list \<Rightarrow> string list" where
  "str_paths files = List.map_filter path_of files"

definition duplicated_paths :: "pydict list \<Rightarrow> string set" where
  "duplicated_paths files = {p \<in> set (str_paths files). 2 \<le> count_list (str_paths files) p}"

text \<open>The \<^verbatim>\<open>meta\<close> entry of a mapping is absent or itself a mapping.\<close>

definition meta_entry_ok :: "json \<Rightarrow> bool" where
  "meta_entry_ok doc =
     (case doc of
        JDict d \<Rightarrow> (case map_of d ''meta'' of None \<Rightarrow> True | Some v \<Rightarrow> is_dict v)
      | _ \<Rightarrow> False)"

text \<open>An instance of the library parameters for the sample documents below: exact on
  \<^verbatim>\<open>None\<close>, booleans and ASCII strings without quotes, which is all they contain.\<close>

definition ascii_space :: "char \<Rightarrow> bool" where
  "ascii_space c = (of_char c \<in> {9, 10, 11, 12, 13, 28, 29, 30, 31, 32 :: nat})"

definition ascii_lower :: "char \<Rightarrow> char" where
  "ascii_lower c =
     (if (65::nat) \<le> of_char c \<and> of_char c \<le> (90::nat) then char_of (of_char c + (32::nat)) else c)"

definition sample_str :: "json \<Rightarrow> string" where
  "sample_str v =
     (case v of
        JNull \<Rightarrow> ''None''
      | JBool b \<Rightarrow> (if b then ''True'' else ''False'')
      | JStr s \<Rightarrow> s
      | _ \<Rightarrow> ''<value>'')"

definition sample_lib :: pylib where
  "sample_lib =
     \<lparr>py_str = sample_str,
      py_repr = (\<lambda>s. [CHR 0x27] @ s @ [CHR 0x27]),
      py_strip = (\<lambda>s. rev (dropWhile ascii_space (rev (dropWhile ascii_space s)))),
      py_lower = map ascii_lower\<rparr>"

text \<open>Sample documents and the exact decimal sum of the score's summands.\<close>

definition doc_all_increments :: json where
  "doc_all_increments =
     JDict [(''coverage'', JDict [(''coverage_pct'', JInt 50)]),
            (''meta'', JDict [(''filters'', JDict [(''path_filter'', JStr ''src'')]),
                              (''plan_only'', JBool True)])]"

definition exact_sum :: "json \<Rightarrow> rat" where
  "exact_sum doc = 18 / 100 + (if coverage_incomplete doc then 10 / 100 else 0)
     + (if filters_active doc then 8 / 100 else 0)
     + (if reduced_context doc then 12 / 100 else 0)"

definition doc_bool_coverage :: json where
  "doc_bool_coverage = JDict [(''coverage'', JDict [(''coverage_pct'', JBool True)])]"

section \<open>Properties\<close>

subsection \<open>When evaluation returns\<close>

lemma list_files_dict:
  "list_files (JDict d) = Inr (file_records (JDict d))"
  by (simp add: list_files_def file_records_def attr_get_def split: json.splits)

lemma list_files_not_dict:
  "\<not> is_dict doc \<Longrightarrow> list_files doc = Inl AttributeError"
  by (cases doc) (simp_all add: list_files_def attr_get_def)

lemma meta_sanity_dict:
  "meta_sanity L (JDict d) files =
     (if meta_entry_ok (JDict d)
      then Inr (meta_rules L (safe_get (JDict d) [''meta'', ''contract''] JNull)
                  (safe_get (JDict d) [''meta'', ''contract_version''] JNull)
                  (safe_get (JDict d) [''meta'', ''profile''] JNull)
                  (safe_get (JDict d) [''coverage'', ''coverage_pct''] JNull)
                  (safe_get (JDict d) [''meta'', ''max_file_bytes''] JNull)
                  (dict_get d ''scope'' JNull)
                  (safe_get (JDict d) [''meta'', ''filters''] (JDict []))
                  files)
      else Inl AttributeError)"
  by (auto simp: meta_sanity_def meta_entry_ok_def attr_get_def dict_get_def Let_def
           split: option.splits json.splits)

lemma build_report_not_dict:
  "\<not> is_dict doc \<Longrightarrow> build_report L doc ip now = Inl AttributeError"
  by (simp add: build_report_def list_files_not_dict)

lemma build_report_dict:
  "build_report L (JDict d) ip now =
     (case meta_sanity L (JDict d) (file_records (JDict d)) of
        Inl e \<Rightarrow> Inl e
      | Inr ms \<Rightarrow>
          Inr \<lparr>generated_at = now,
               agent = ''heimgeist.sichter.koh'' @ ae @ ''renz'',
               input_path = ip,
               meta = (case dict_get d ''meta'' JNull of JDict m \<Rightarrow> m | _ \<Rightarrow> []),
               scope = (case dict_get d ''scope'' JNull of JStr x \<Rightarrow> x | _ \<Rightarrow> []),
               coverage_pct =
                 (if is_int_or_float (safe_get (JDict d) [''coverage'', ''coverage_pct''] JNull)
                  then Some (safe_get (JDict d) [''coverage'', ''coverage_pct''] JNull) else None),
               files_total =
                 (if is_int (safe_get (JDict d) [''meta'', ''total_files''] JNull)
                  then Some (safe_get (JDict d) [''meta'', ''total_files''] JNull) else None),
               findings = ms @ heuristic_expected_markers (path_set (file_records (JDict d))),
               uncertainty = uncertainty_of (JDict d)\<rparr>)"
  by (simp add: build_report_def list_files_dict attr_get_def Let_def del: safe_get.simps)

lemma build_report_ok_iff:
  "(\<exists>rep. build_report L doc ip now = Inr rep) \<longleftrightarrow> is_dict doc \<and> meta_entry_ok doc"
proof (cases doc)
  case (JDict d)
  then show ?thesis
    by (simp add: build_report_dict meta_sanity_dict)
qed (simp_all add: build_report_not_dict)

theorem build_report_abort:
  "(\<not> is_dict doc \<longrightarrow> build_report L doc ip now = Inl AttributeError)
   \<and> (is_dict doc \<and> meta_entry_ok doc \<longrightarrow> (\<exists>rep. build_report L doc ip now = Inr rep))"
  using build_report_ok_iff[of L doc ip now] build_report_not_dict[of doc L ip now] by blast

theorem cex: "build_report sample_lib (JList []) ''in.json'' ''t'' = Inl AttributeError
  \<and> is_dict (JDict [(''meta'', JNull)]) \<and> 
   build_report sample_lib (JDict [(''meta'', JNull)]) ''in.json'' ''t'' = Inl AttributeError"
  by (simp add: build_report_not_dict build_report_dict meta_sanity_dict meta_entry_ok_def)

subsection \<open>The uncertainty score\<close>

text \<open>The literals and the partial sums, each rounded once.\<close>

lemma lit_018: "round_double (18 / 100) = 3242591731706757 / 18014398509481984"
  by code_simp

lemma lit_010: "round_double (10 / 100) = 3602879701896397 / 36028797018963968"
  by code_simp

lemma lit_008: "round_double (8 / 100) = 5764607523034235 / 72057594037927936"
  by code_simp

lemma lit_012: "round_double (12 / 100) = 1080863910568919 / 9007199254740992"
  by code_simp

lemma lit_095: "round_double (95 / 100) = 4278419646001971 / 4503599627370496"
  by code_simp

lemma sum_c:
  "fadd (3242591731706757 / 18014398509481984) (3602879701896397 / 36028797018963968)
     = 1261007895663739 / 4503599627370496"
  by code_simp

lemma sum_f:
  "fadd (3242591731706757 / 18014398509481984) (5764607523034235 / 72057594037927936)
     = 1170935903116329 / 4503599627370496"
  by code_simp

lemma sum_r:
  "fadd (3242591731706757 / 18014398509481984) (1080863910568919 / 9007199254740992)
     = 5404319552844595 / 18014398509481984"
  by code_simp

lemma sum_cf:
  "fadd (1261007895663739 / 4503599627370496) (5764607523034235 / 72057594037927936)
     = 6485183463413515 / 18014398509481984"
  by code_simp

lemma sum_cr:
  "fadd (1261007895663739 / 4503599627370496) (1080863910568919 / 9007199254740992)
     = 3602879701896397 / 9007199254740992"
  by code_simp

lemma sum_fr:
  "fadd (1170935903116329 / 4503599627370496) (1080863910568919 / 9007199254740992)
     = 3422735716801577 / 9007199254740992"
  by code_simp

lemma sum_cfr:
  "fadd (6485183463413515 / 18014398509481984) (1080863910568919 / 9007199254740992)
     = 8646911284551353 / 18014398509481984"
  by code_simp

lemmas score_literals = lit_018 lit_010 lit_008 lit_012

lemmas score_sums = sum_c sum_f sum_r sum_cf sum_cr sum_fr sum_cfr

lemma raw_score_cases:
  "fst (uncertainty_raw doc) =
    (if coverage_incomplete doc then
       (if filters_active doc then
          (if reduced_context doc then 8646911284551353 / 18014398509481984
           else 6485183463413515 / 18014398509481984)
        else (if reduced_context doc then 3602879701896397 / 9007199254740992
           else 1261007895663739 / 4503599627370496))
     else (if filters_active doc then
          (if reduced_context doc then 3422735716801577 / 9007199254740992
           else 1170935903116329 / 4503599627370496)
        else (if reduced_context doc then 5404319552844595 / 18014398509481984
           else 3242591731706757 / 18014398509481984)))"
  by (cases "coverage_incomplete doc"; cases "filters_active doc"; cases "reduced_context doc";
      simp only: uncertainty_raw_def Let_def if_True if_False prod.case fst_conv
        score_literals score_sums)

lemma raw_causes:
  "snd (uncertainty_raw doc) =
     (if coverage_incomplete doc then [cause_coverage] else [])
     @ (if filters_active doc then [cause_filters] else [])
     @ (if reduced_context doc then [cause_context] else [])"
  by (simp add: uncertainty_raw_def)

lemma uncertainty_of_alt:
  "uncertainty_of doc =
     \<lparr>uncertainty_score = max 0 (min (round_double (95 / 100)) (fst (uncertainty_raw doc))),
      causes = (if snd (uncertainty_raw doc) \<noteq> [] then snd (uncertainty_raw doc) else [cause_none]),
      note_text = ''Ungewissheit ist hier produktiv: Sie verhindert, dass Snapshot-Befunde als Live-Wahrheit missverstanden werden.''\<rparr>"
  by (simp add: uncertainty_of_def split: prod.splits)

lemma raw_bounds: "3242591731706757 / 18014398509481984 \<le> fst (uncertainty_raw doc) \<and>
    fst (uncertainty_raw doc) \<le> 8646911284551353 / 18014398509481984"
  by (simp add: raw_score_cases)

lemma clamp_id: "max 0 (min (round_double (95 / 100)) (fst (uncertainty_raw doc))) = fst (uncertainty_raw doc)"
  using raw_bounds[of doc] unfolding lit_095 by (simp add: min_def max_def)

theorem c3: "0 \<le> uncertainty_score (uncertainty_of doc)
   \<and> uncertainty_score (uncertainty_of doc) \<le> 95 / 100
   \<and> causes (uncertainty_of doc) \<noteq> []
   \<and> (\<not> coverage_incomplete doc \<and> \<not> filters_active doc \<and> \<not> reduced_context doc
        \<longrightarrow> causes (uncertainty_of doc) = [cause_none])
   \<and> (build_report L doc ip now = Inr rep \<longrightarrow> uncertainty rep = uncertainty_of doc)"
proof -
  have a: "0 \<le> uncertainty_score (uncertainty_of doc)"
    by (simp add: uncertainty_of_alt)
  have nn: "(0::rat) \<le> round_double (95 / 100)"
    unfolding lit_095 by simp
  have "uncertainty_score (uncertainty_of doc) \<le> round_double (95 / 100)"
    using nn by (simp add: uncertainty_of_alt)
  then have b: "uncertainty_score (uncertainty_of doc) \<le> 95 / 100"
    unfolding lit_095 by simp
  have c: "causes (uncertainty_of doc) \<noteq> []"
    by (simp add: uncertainty_of_alt)
  have d: "\<not> coverage_incomplete doc \<and> \<not> filters_active doc \<and> \<not> reduced_context doc
        \<longrightarrow> causes (uncertainty_of doc) = [cause_none]"
    by (simp add: uncertainty_of_alt raw_causes)
  have e: "build_report L doc ip now = Inr rep \<longrightarrow> uncertainty rep = uncertainty_of doc"
  proof (cases doc)
    case (JDict d)
    then show ?thesis by (auto simp: build_report_dict split: sum.splits)
  qed (simp_all add: build_report_not_dict)
  from a b c d e show ?thesis by blast
qed

subsection \<open>Paths and duplicates\<close>

lemma str_paths_Nil [simp]: "str_paths [] = []"
  by (simp add: str_paths_def List.map_filter_simps)

lemma str_paths_Cons:
  "str_paths (f # fs) = (case path_of f of None \<Rightarrow> str_paths fs | Some p \<Rightarrow> p # str_paths fs)"
  by (simp add: str_paths_def List.map_filter_simps split: option.splits)

lemma path_set_loop_eq: "path_set_loop fs out = out \<union> set (str_paths fs)"
  by (induction fs arbitrary: out) (auto simp: str_paths_Cons split: option.splits)

lemma path_set_eq: "path_set fs = set (str_paths fs)"
  by (simp add: path_set_def path_set_loop_eq)

lemma count_duplicates_loop_eq:
  "count_duplicates_loop fs seen dups =
     dups \<union> (seen \<inter> set (str_paths fs)) \<union> duplicated_paths fs"
proof (induction fs arbitrary: seen dups)
  case Nil
  then show ?case by (simp add: duplicated_paths_def)
next
  case (Cons f fs)
  show ?case
  proof (cases "path_of f")
    case None
    then show ?thesis
      using Cons.IH[of seen dups] by (simp add: str_paths_Cons duplicated_paths_def)
  next
    case (Some p)
    have cnt: "p \<in> set (str_paths fs) \<longleftrightarrow> Suc 0 \<le> count_list (str_paths fs) p"
      using count_list_0_iff[of "str_paths fs" p] by arith
    have sp: "str_paths (f # fs) = p # str_paths fs"
      using Some by (simp add: str_paths_Cons)
    have dp: "duplicated_paths (f # fs) =
        duplicated_paths fs \<union> (if p \<in> set (str_paths fs) then {p} else {})"
      unfolding duplicated_paths_def sp using cnt by (auto split: if_splits)
    have "count_duplicates_loop (f # fs) seen dups =
        count_duplicates_loop fs (insert p seen) (if p \<in> seen then insert p dups else dups)"
      using Some by simp
    also have "\<dots> = (if p \<in> seen then insert p dups else dups)
        \<union> (insert p seen \<inter> set (str_paths fs)) \<union> duplicated_paths fs"
      by (rule Cons.IH)
    also have "\<dots> = dups \<union> (seen \<inter> set (str_paths (f # fs))) \<union> duplicated_paths (f # fs)"
      unfolding dp sp by auto
    finally show ?thesis .
  qed
qed

lemma count_duplicates_eq:
  "count_duplicates fs = sorted_list_of_set (duplicated_paths fs)"
  by (simp add: count_duplicates_def count_duplicates_loop_eq)

lemma finite_duplicated_paths [simp]: "finite (duplicated_paths fs)"
  by (simp add: duplicated_paths_def)

lemma join_sublist: "x \<in> set xs \<Longrightarrow> sublist x (join sep xs)"
proof (induction sep xs rule: join.induct)
  case (3 sep x' y ys)
  show ?case
  proof (cases "x = x'")
    case True
    then show ?thesis by (simp add: sublist_append_rightI)
  next
    case False
    with 3 have "sublist x (join sep (y # ys))" by simp
    then have "sublist x (x' @ sep @ join sep (y # ys))"
      by (simp add: sublist_append)
    then show ?thesis by simp
  qed
qed simp_all

subsection \<open>Findings by code\<close>

lemma marker_codes [simp]:
  "code finding_001 = ''HG-SICHTER-001''"
  "code finding_002 = ''HG-SICHTER-002''"
  "code finding_003 = ''HG-SICHTER-003''"
  "code finding_004 = ''HG-SICHTER-004''"
  "code finding_005 = ''HG-SICHTER-005''"
  "code finding_017 = ''HG-SICHTER-017''"
  unfolding finding_001_def finding_002_def finding_003_def finding_004_def
    finding_005_def finding_017_def
  by simp_all

lemma meta_codes [simp]:
  "code (finding_010 L c v) = ''HG-SICHTER-010''"
  "code (finding_011 L x) = ''HG-SICHTER-011''"
  "code (finding_012 L x) = ''HG-SICHTER-012''"
  "code (finding_013 L s) = ''HG-SICHTER-013''"
  "code (finding_014 L s) = ''HG-SICHTER-014''"
  "code (finding_015 ds) = ''HG-SICHTER-015''"
  "code (finding_016 L s) = ''HG-SICHTER-016''"
  unfolding finding_010_def finding_011_def finding_012_def finding_013_def
    finding_014_def finding_015_def finding_016_def
  by simp_all

lemma filter_if_single:
  "filter P (if b then [x] else []) = (if b \<and> P x then [x] else [])"
  by (cases b) simp_all

lemma markers_no_meta_code:
  "c \<notin> {''HG-SICHTER-001'', ''HG-SICHTER-002'', ''HG-SICHTER-003'', ''HG-SICHTER-004'',
         ''HG-SICHTER-005''}
   \<Longrightarrow> [g \<leftarrow> heuristic_expected_markers paths. code g = c] = []"
  by (auto simp: heuristic_expected_markers_def)

lemma meta_rules_010:
  "[g \<leftarrow> meta_rules L contract ver profile coverage mfb sc filters files.
      code g = ''HG-SICHTER-010'']
   = (if contract \<noteq> JStr ''wc-merge-agent'' \<or> ver \<noteq> JStr ''v1''
      then [finding_010 L contract ver] else [])"
  unfolding meta_rules_def Let_def filter_append filter_if_single meta_codes marker_codes
  by simp

lemma meta_rules_011:
  "[g \<leftarrow> meta_rules L contract ver profile coverage mfb sc filters files.
      code g = ''HG-SICHTER-011'']
   = (if is_int_or_float coverage \<and> num_less coverage 95
      then [finding_011 L coverage] else [])"
  unfolding meta_rules_def Let_def filter_append filter_if_single meta_codes marker_codes
  by simp

lemma meta_rules_015:
  "[g \<leftarrow> meta_rules L contract ver profile coverage mfb sc filters files.
      code g = ''HG-SICHTER-015'']
   = (if count_duplicates files \<noteq> [] then [finding_015 (count_duplicates files)] else [])"
  unfolding meta_rules_def Let_def filter_append filter_if_single meta_codes marker_codes
  by simp

lemma build_report_findings:
  assumes "build_report L doc ip now = Inr rep"
  shows "\<exists>d. doc = JDict d \<and> meta_entry_ok doc
     \<and> findings rep =
         meta_rules L (safe_get doc [''meta'', ''contract''] JNull)
           (safe_get doc [''meta'', ''contract_version''] JNull)
           (safe_get doc [''meta'', ''profile''] JNull)
           (safe_get doc [''coverage'', ''coverage_pct''] JNull)
           (safe_get doc [''meta'', ''max_file_bytes''] JNull)
           (dict_get d ''scope'' JNull)
           (safe_get doc [''meta'', ''filters''] (JDict []))
           (file_records doc)
         @ heuristic_expected_markers (path_set (file_records doc))"
proof (cases doc)
  case (JDict d)
  with assms show ?thesis
    by (auto simp: build_report_dict meta_sanity_dict simp del: safe_get.simps
        split: if_splits)
qed (use assms in \<open>simp_all add: build_report_not_dict\<close>)

lemma report_filter_meta_code:
  assumes "build_report L doc ip now = Inr rep"
    and "c \<notin> {''HG-SICHTER-001'', ''HG-SICHTER-002'', ''HG-SICHTER-003'', ''HG-SICHTER-004'',
         ''HG-SICHTER-005''}"
  shows "\<exists>d. doc = JDict d \<and> [g \<leftarrow> findings rep. code g = c] =
     [g \<leftarrow> meta_rules L (safe_get doc [''meta'', ''contract''] JNull)
           (safe_get doc [''meta'', ''contract_version''] JNull)
           (safe_get doc [''meta'', ''profile''] JNull)
           (safe_get doc [''coverage'', ''coverage_pct''] JNull)
           (safe_get doc [''meta'', ''max_file_bytes''] JNull)
           (dict_get d ''scope'' JNull)
           (safe_get doc [''meta'', ''filters''] (JDict []))
           (file_records doc). code g = c]"
proof -
  from build_report_findings[OF assms(1)] obtain d where d: "doc = JDict d"
    and f: "findings rep =
         meta_rules L (safe_get doc [''meta'', ''contract''] JNull)
           (safe_get doc [''meta'', ''contract_version''] JNull)
           (safe_get doc [''meta'', ''profile''] JNull)
           (safe_get doc [''coverage'', ''coverage_pct''] JNull)
           (safe_get doc [''meta'', ''max_file_bytes''] JNull)
           (dict_get d ''scope'' JNull)
           (safe_get doc [''meta'', ''filters''] (JDict []))
           (file_records doc)
         @ heuristic_expected_markers (path_set (file_records doc))"
    by blast
  show ?thesis
    unfolding f filter_append markers_no_meta_code[OF assms(2)] using d by simp
qed

lemma sublist_mid: "sublist q m \<Longrightarrow> sublist q (a @ m @ b)"
  by (simp add: sublist_append)

lemma detail_015:
  "detail (finding_015 ds) = ''Folgende Pfade sind mehrfach enthalten: '' @ join '', '' (take 50 ds)
       @ (if 50 < length ds then '' '' @ hellip else [])"
  "severity (finding_015 ds) = ''crit''"
  unfolding finding_015_def by simp_all

theorem duplicate_paths_finding:
  assumes "build_report L doc ip now = Inr rep"
    and "2 \<le> count_list (str_paths (file_records doc)) p"
  shows "let ds = sorted_list_of_set (duplicated_paths (file_records doc)) in
     \<exists>f. [g \<leftarrow> findings rep. code g = ''HG-SICHTER-015''] = [f]
       \<and> severity f = ''crit''
       \<and> detail f = ''Folgende Pfade sind mehrfach enthalten: '' @ join '', '' (take 50 ds)
            @ (if 50 < length ds then '' '' @ hellip else [])
       \<and> sorted ds \<and> distinct ds \<and> set ds = duplicated_paths (file_records doc)
       \<and> p \<in> set ds
       \<and> (\<forall>q \<in> set (take 50 ds). sublist q (detail f))
       \<and> (length ds \<le> 50 \<longrightarrow> (\<forall>q \<in> duplicated_paths (file_records doc). sublist q (detail f)))"
proof -
  define ds where "ds = sorted_list_of_set (duplicated_paths (file_records doc))"
  have cd: "count_duplicates (file_records doc) = ds"
    by (simp add: ds_def count_duplicates_eq)
  have pin: "p \<in> duplicated_paths (file_records doc)"
  proof -
    have "count_list (str_paths (file_records doc)) p \<noteq> 0" using assms(2) by arith
    then have "p \<in> set (str_paths (file_records doc))" by (simp add: count_list_0_iff)
    with assms(2) show ?thesis by (simp add: duplicated_paths_def)
  qed
  have sds: "set ds = duplicated_paths (file_records doc)" "sorted ds" "distinct ds"
    by (simp_all add: ds_def)
  with pin have ne: "ds \<noteq> []" by auto
  from report_filter_meta_code[OF assms(1), of "''HG-SICHTER-015''"]
  have fl: "[g \<leftarrow> findings rep. code g = ''HG-SICHTER-015''] = [finding_015 ds]"
    using ne by (auto simp: meta_rules_015 cd)
  have sub: "\<forall>q \<in> set (take 50 ds). sublist q (detail (finding_015 ds))"
  proof
    fix q assume "q \<in> set (take 50 ds)"
    then have "sublist q (join '', '' (take 50 ds))" by (rule join_sublist)
    then show "sublist q (detail (finding_015 ds))"
      unfolding detail_015 by (rule sublist_mid)
  qed
  have all: "length ds \<le> 50 \<longrightarrow> (\<forall>q \<in> duplicated_paths (file_records doc). sublist q (detail (finding_015 ds)))"
    using sub sds(1) by auto
  show ?thesis
    unfolding ds_def[symmetric] Let_def
    using fl sds pin sub all detail_015[of ds] by (intro exI[of _ "finding_015 ds"]) simp
qed

lemma all_inc: "coverage_incomplete doc_all_increments" "filters_active doc_all_increments"
  "reduced_context doc_all_increments"
  by (simp_all add: doc_all_increments_def coverage_incomplete_def filters_active_def
      reduced_context_def dict_get_def)

lemma score_eq_raw: "uncertainty_score (uncertainty_of doc) = fst (uncertainty_raw doc)"
  unfolding uncertainty_of_alt by (simp only: uncertainty_assessment.select_convs clamp_id)

theorem score_above_048_counterexample:
  "\<not> uncertainty_score (uncertainty_of doc_all_increments) \<le> 48 / 100
   \<and> \<not> uncertainty_score (uncertainty_of doc_all_increments) \<le> round_double (48 / 100)
   \<and> uncertainty_score (uncertainty_of doc_all_increments)
       \<noteq> 18 / 100 + 10 / 100 + 8 / 100 + 12 / 100"
proof -
  have v: "uncertainty_score (uncertainty_of doc_all_increments)
      = 8646911284551353 / 18014398509481984"
    by (simp add: score_eq_raw raw_score_cases all_inc)
  have r: "round_double (48 / 100) = 1080863910568919 / 2251799813685248"
    by code_simp
  show ?thesis unfolding v r by simp
qed

theorem score_float_sum:
  "uncertainty_score (uncertainty_of doc) = fst (uncertainty_raw doc)
   \<and> max 0 (min (round_double (95 / 100)) (fst (uncertainty_raw doc))) = fst (uncertainty_raw doc)
   \<and> uncertainty_score (uncertainty_of doc) \<in>
       {3242591731706757 / 18014398509481984, 1261007895663739 / 4503599627370496,
        1170935903116329 / 4503599627370496, 5404319552844595 / 18014398509481984,
        6485183463413515 / 18014398509481984, 3602879701896397 / 9007199254740992,
        3422735716801577 / 9007199254740992, 8646911284551353 / 18014398509481984}
   \<and> round_double (18 / 100) \<le> uncertainty_score (uncertainty_of doc)
   \<and> uncertainty_score (uncertainty_of doc) \<le> 8646911284551353 / 18014398509481984
   \<and> \<bar>uncertainty_score (uncertainty_of doc) - exact_sum doc\<bar> < 1 / 2 ^ 53"
proof -
  have a: "uncertainty_score (uncertainty_of doc) = fst (uncertainty_raw doc)"
    by (rule score_eq_raw)
  have b: "fst (uncertainty_raw doc) \<in>
       {3242591731706757 / 18014398509481984, 1261007895663739 / 4503599627370496,
        1170935903116329 / 4503599627370496, 5404319552844595 / 18014398509481984,
        6485183463413515 / 18014398509481984, 3602879701896397 / 9007199254740992,
        3422735716801577 / 9007199254740992, 8646911284551353 / 18014398509481984}"
    unfolding raw_score_cases by simp
  have c: "round_double (18 / 100) \<le> fst (uncertainty_raw doc)"
    unfolding lit_018 using raw_bounds[of doc] by simp
  have d: "fst (uncertainty_raw doc) \<le> 8646911284551353 / 18014398509481984"
    using raw_bounds[of doc] by simp
  have e: "\<bar>fst (uncertainty_raw doc) - exact_sum doc\<bar> < 1 / 2 ^ 53"
    unfolding raw_score_cases exact_sum_def by simp
  show ?thesis unfolding a using b c d e clamp_id[of doc] by blast
qed

lemma sev_010: "severity (finding_010 L c v) = ''crit''"
  unfolding finding_010_def by simp

lemma contract_other_ok:
  assumes "safe_get doc [''meta'', ''contract''] JNull = JStr ''other''"
  shows "is_dict doc \<and> meta_entry_ok doc"
  using assms by (cases doc) (auto simp: meta_entry_ok_def split: option.splits json.splits)

theorem wrong_contract_finding:
  "(safe_get doc [''meta'', ''contract''] JNull = JStr ''other''
      \<longrightarrow> (\<exists>rep f. build_report L doc ip now = Inr rep
             \<and> [g \<leftarrow> findings rep. code g = ''HG-SICHTER-010''] = [f] \<and> severity f = ''crit''))
   \<and> (build_report L doc ip now = Inr rep \<longrightarrow>
        (if safe_get doc [''meta'', ''contract''] JNull \<noteq> JStr ''wc-merge-agent''
            \<or> safe_get doc [''meta'', ''contract_version''] JNull \<noteq> JStr ''v1''
         then \<exists>f. [g \<leftarrow> findings rep. code g = ''HG-SICHTER-010''] = [f] \<and> severity f = ''crit''
         else [g \<leftarrow> findings rep. code g = ''HG-SICHTER-010''] = []))"
proof -
  have gen: "(if safe_get doc [''meta'', ''contract''] JNull \<noteq> JStr ''wc-merge-agent''
            \<or> safe_get doc [''meta'', ''contract_version''] JNull \<noteq> JStr ''v1''
         then \<exists>f. [g \<leftarrow> findings r. code g = ''HG-SICHTER-010''] = [f] \<and> severity f = ''crit''
         else [g \<leftarrow> findings r. code g = ''HG-SICHTER-010''] = [])"
    if "build_report L doc ip now = Inr r" for r
    using report_filter_meta_code[OF that, of "''HG-SICHTER-010''"]
    by (auto simp: meta_rules_010 sev_010 simp del: safe_get.simps)
  have other: "\<exists>rep f. build_report L doc ip now = Inr rep
             \<and> [g \<leftarrow> findings rep. code g = ''HG-SICHTER-010''] = [f] \<and> severity f = ''crit''"
    if o: "safe_get doc [''meta'', ''contract''] JNull = JStr ''other''"
  proof -
    from contract_other_ok[OF o] build_report_ok_iff[of L doc ip now]
    obtain r where r: "build_report L doc ip now = Inr r" by blast
    from gen[OF r] o show ?thesis using r by (auto simp del: safe_get.simps)
  qed
  from gen other show ?thesis by blast
qed

lemma low_coverage_iff:
  assumes "build_report L doc ip now = Inr rep"
  shows "[g \<leftarrow> findings rep. code g = ''HG-SICHTER-011''] =
     (if is_int_or_float (safe_get doc [''coverage'', ''coverage_pct''] JNull)
         \<and> num_less (safe_get doc [''coverage'', ''coverage_pct''] JNull) 95
      then [finding_011 L (safe_get doc [''coverage'', ''coverage_pct''] JNull)] else [])"
  using report_filter_meta_code[OF assms, of "''HG-SICHTER-011''"]
  by (auto simp: meta_rules_011 simp del: safe_get.simps)

theorem bool_coverage_low_coverage_finding:
  "\<exists>rep. build_report sample_lib doc_bool_coverage ''in.json'' ''t'' = Inr rep
     \<and> [g \<leftarrow> findings rep. code g = ''HG-SICHTER-011'']
         = [\<lparr>severity = ''warn'', code = ''HG-SICHTER-011'', title = ''Coverage < 95%'',
             detail = ''Coverage True%: Hohe Chance auf blinde Flecken. Befunde sind eher Tendenzen als Aussagen.''\<rparr>]
     \<and> coverage_pct rep = Some (JBool True)"
proof -
  have "is_dict doc_bool_coverage \<and> meta_entry_ok doc_bool_coverage"
    by (simp add: doc_bool_coverage_def meta_entry_ok_def)
  then obtain r where r: "build_report sample_lib doc_bool_coverage ''in.json'' ''t'' = Inr r"
    using build_report_ok_iff[of sample_lib doc_bool_coverage "''in.json''" "''t''"] by blast
  have c: "safe_get doc_bool_coverage [''coverage'', ''coverage_pct''] JNull = JBool True"
    by (simp add: doc_bool_coverage_def)
  have f: "[g \<leftarrow> findings r. code g = ''HG-SICHTER-011''] = [finding_011 sample_lib (JBool True)]"
    unfolding low_coverage_iff[OF r] c by simp
  have p: "coverage_pct r = Some (JBool True)"
    using r c unfolding doc_bool_coverage_def
    by (auto simp: build_report_dict doc_bool_coverage_def split: sum.splits)
  show ?thesis using r f p
    by (simp add: finding_011_def sample_lib_def sample_str_def)
qed

lemma has_prefix_empty [simp]: "\<not> has_prefix {} pre"
  by (simp add: has_prefix_def)

lemma markers_empty:
  "heuristic_expected_markers {} = [finding_001, finding_002, finding_003, finding_004, finding_005]"
  by (simp add: heuristic_expected_markers_def)

lemma marker_severities:
  "map severity [finding_001, finding_002, finding_003, finding_004, finding_005]
     = [''warn'', ''warn'', ''info'', ''info'', ''info'']"
  by (simp add: finding_001_def finding_002_def finding_003_def finding_004_def finding_005_def)

theorem empty_document_report:
  "\<exists>rep. build_report L (JDict []) ip now = Inr rep
     \<and> coverage_pct rep = None
     \<and> findings rep = [finding_010 L JNull JNull, finding_017,
                        finding_001, finding_002, finding_003, finding_004, finding_005]
     \<and> [g \<leftarrow> findings rep. code g \<in> {''HG-SICHTER-001'', ''HG-SICHTER-002'',
            ''HG-SICHTER-003'', ''HG-SICHTER-004'', ''HG-SICHTER-005''}]
         = [finding_001, finding_002, finding_003, finding_004, finding_005]
     \<and> map severity [finding_001, finding_002, finding_003, finding_004, finding_005]
         = [''warn'', ''warn'', ''info'', ''info'', ''info'']"
proof -
  have fr: "file_records (JDict []) = []"
    by (simp add: file_records_def list_files_def attr_get_def dict_get_def)
  have cd: "count_duplicates [] = []"
    by (simp add: count_duplicates_def)
  have mr: "meta_sanity L (JDict []) [] = Inr [finding_010 L JNull JNull, finding_017]"
    by (simp add: meta_sanity_dict meta_entry_ok_def meta_rules_def dict_get_def cd
        nonblank_str_def)
  have ps: "path_set [] = {}" by (simp add: path_set_def)
  have br: "build_report L (JDict []) ip now =
      Inr \<lparr>generated_at = now, agent = ''heimgeist.sichter.koh'' @ ae @ ''renz'',
           input_path = ip, meta = [], scope = [], coverage_pct = None, files_total = None,
           findings = [finding_010 L JNull JNull, finding_017,
                        finding_001, finding_002, finding_003, finding_004, finding_005],
           uncertainty = uncertainty_of (JDict [])\<rparr>"
    by (simp add: build_report_dict fr mr ps markers_empty dict_get_def)
  show ?thesis
    unfolding br using marker_severities by simp
qed

lemma rstrip_wgx [simp]: "rstrip_slash ''.wgx/'' = ''.wgx''"
  "rstrip_slash ''.ai-context.yml/'' = ''.ai-context.yml''"
  by (simp_all add: rstrip_slash_def)

lemma marker_distinct_aux:
  "finding_001 \<noteq> finding_002" "finding_001 \<noteq> finding_003" "finding_001 \<noteq> finding_004"
  "finding_001 \<noteq> finding_005" "finding_002 \<noteq> finding_003" "finding_002 \<noteq> finding_004"
  "finding_002 \<noteq> finding_005"
  by (simp_all add: finding_001_def finding_002_def finding_003_def finding_004_def finding_005_def)

theorem wgx_directory_marker:
  "(finding_002 \<in> set (heuristic_expected_markers paths)
      \<longleftrightarrow> \<not> (\<exists>p \<in> paths. prefix ''.wgx/'' p))
   \<and> (''.wgx'' \<in> paths \<and> \<not> (\<exists>p \<in> paths. prefix ''.wgx/'' p)
        \<longrightarrow> finding_002 \<in> set (heuristic_expected_markers paths))
   \<and> (finding_001 \<in> set (heuristic_expected_markers paths)
      \<longleftrightarrow> ''.ai-context.yml'' \<notin> paths \<and> \<not> (\<exists>p \<in> paths. prefix ''.ai-context.yml/'' p))"
proof -
  have w: "has_prefix paths ''.wgx/'' \<longleftrightarrow> (\<exists>p \<in> paths. prefix ''.wgx/'' p)"
    by (simp add: has_prefix_def)
  have a: "has_prefix paths ''.ai-context.yml/'' \<longleftrightarrow> (\<exists>p \<in> paths. prefix ''.ai-context.yml/'' p)"
    by (simp add: has_prefix_def)
  have m2: "finding_002 \<in> set (heuristic_expected_markers paths) \<longleftrightarrow> \<not> has_prefix paths ''.wgx/''"
    using marker_distinct_aux by (simp add: heuristic_expected_markers_def)
  have m1: "finding_001 \<in> set (heuristic_expected_markers paths)
      \<longleftrightarrow> ''.ai-context.yml'' \<notin> paths \<and> \<not> has_prefix paths ''.ai-context.yml/''"
    using marker_distinct_aux by (simp add: heuristic_expected_markers_def)
  show ?thesis unfolding m1 m2 w a by blast
qed

theorem wgx_directory_marker_witness:
  "''.wgx'' \<in> {''.wgx'', ''.ai-context.yml''}
   \<and> \<not> (\<exists>p \<in> {''.wgx'', ''.ai-context.yml''}. prefix ''.wgx/'' p)
   \<and> finding_002 \<in> set (heuristic_expected_markers {''.wgx'', ''.ai-context.yml''})
   \<and> finding_001 \<notin> set (heuristic_expected_markers {''.wgx'', ''.ai-context.yml''})"
  using wgx_directory_marker[of "{''.wgx'', ''.ai-context.yml''}"] by simp

lemma subseq_opt_map:
  "subseq (map f xs) ys \<Longrightarrow> subseq (map f ((if b then [x] else []) @ xs)) (f x # ys)"
  by (cases b) (simp_all add: list_emb_Cons)

lemma meta_rules_order:
  "subseq (map code (meta_rules L contract ver profile coverage mfb sc filters files))
     [''HG-SICHTER-010'', ''HG-SICHTER-011'', ''HG-SICHTER-012'', ''HG-SICHTER-013'',
      ''HG-SICHTER-014'', ''HG-SICHTER-015'', ''HG-SICHTER-016'', ''HG-SICHTER-017'']"
proof -
  have e: "subseq (map code (if b then [finding_017] else [])) [''HG-SICHTER-017'']" for b
    by (cases b) simp_all
  show ?thesis
    unfolding meta_rules_def Let_def
    apply (rule subseq_opt_map[where f = code and x = "finding_010 L contract ver", unfolded meta_codes])
    apply (rule subseq_opt_map[where f = code and x = "finding_011 L coverage", unfolded meta_codes])
    apply (rule subseq_opt_map[where f = code and x = "finding_012 L mfb", unfolded meta_codes])
    apply (rule subseq_opt_map[where f = code and x = "finding_013 L s" for s, unfolded meta_codes])
    apply (rule subseq_opt_map[where f = code and x = "finding_014 L s" for s, unfolded meta_codes])
    apply (rule subseq_opt_map[where f = code and x = "finding_015 s" for s, unfolded meta_codes])
    apply (rule subseq_opt_map[where f = code and x = "finding_016 L s" for s, unfolded meta_codes])
    apply (rule e)
    done
qed

lemma markers_order:
  "subseq (map code (heuristic_expected_markers paths))
     [''HG-SICHTER-001'', ''HG-SICHTER-002'', ''HG-SICHTER-003'', ''HG-SICHTER-004'',
      ''HG-SICHTER-005'']"
proof -
  have e: "subseq (map code (if b then [finding_005] else [])) [''HG-SICHTER-005'']" for b
    by (cases b) simp_all
  show ?thesis
    unfolding heuristic_expected_markers_def
    apply (rule subseq_opt_map[where f = code and x = finding_001, unfolded marker_codes])
    apply (rule subseq_opt_map[where f = code and x = finding_002, unfolded marker_codes])
    apply (rule subseq_opt_map[where f = code and x = finding_003, unfolded marker_codes])
    apply (rule subseq_opt_map[where f = code and x = finding_004, unfolded marker_codes])
    apply (rule e)
    done
qed

theorem findings_concatenation:
  assumes "build_report L doc ip now = Inr rep"
  shows "\<exists>ms. meta_sanity L doc (file_records doc) = Inr ms
     \<and> findings rep = ms @ heuristic_expected_markers (path_set (file_records doc))
     \<and> subseq (map code ms)
          [''HG-SICHTER-010'', ''HG-SICHTER-011'', ''HG-SICHTER-012'', ''HG-SICHTER-013'',
           ''HG-SICHTER-014'', ''HG-SICHTER-015'', ''HG-SICHTER-016'', ''HG-SICHTER-017'']
     \<and> subseq (map code (heuristic_expected_markers (path_set (file_records doc))))
          [''HG-SICHTER-001'', ''HG-SICHTER-002'', ''HG-SICHTER-003'', ''HG-SICHTER-004'',
           ''HG-SICHTER-005'']"
proof -
  from build_report_findings[OF assms] obtain d where d: "doc = JDict d"
    and ok: "meta_entry_ok doc"
    and f: "findings rep =
         meta_rules L (safe_get doc [''meta'', ''contract''] JNull)
           (safe_get doc [''meta'', ''contract_version''] JNull)
           (safe_get doc [''meta'', ''profile''] JNull)
           (safe_get doc [''coverage'', ''coverage_pct''] JNull)
           (safe_get doc [''meta'', ''max_file_bytes''] JNull)
           (dict_get d ''scope'' JNull)
           (safe_get doc [''meta'', ''filters''] (JDict []))
           (file_records doc)
         @ heuristic_expected_markers (path_set (file_records doc))"
    by blast
  have ms: "meta_sanity L doc (file_records doc) =
      Inr (meta_rules L (safe_get doc [''meta'', ''contract''] JNull)
           (safe_get doc [''meta'', ''contract_version''] JNull)
           (safe_get doc [''meta'', ''profile''] JNull)
           (safe_get doc [''coverage'', ''coverage_pct''] JNull)
           (safe_get doc [''meta'', ''max_file_bytes''] JNull)
           (dict_get d ''scope'' JNull)
           (safe_get doc [''meta'', ''filters''] (JDict []))
           (file_records doc))"
    using ok unfolding d meta_sanity_dict by simp
  show ?thesis
    using ms f meta_rules_order markers_order by blast
qed

lemma finding_roundtrip: "finding_of_mirror (finding_asdict f) = Some f"
  by (simp add: finding_of_mirror_def finding_asdict_def get_str_def)

lemma findings_roundtrip: "those (map (finding_of_mirror \<circ> finding_asdict) fs) = Some fs"
  by (induction fs) (simp_all add: finding_roundtrip)

lemma strs_roundtrip: "those (map (str_of_mirror \<circ> JStr) cs) = Some cs"
  by (induction cs) (simp_all add: str_of_mirror_def)

lemma uncertainty_roundtrip: "uncertainty_of_mirror (uncertainty_asdict u) = Some u"
  by (simp add: uncertainty_of_mirror_def uncertainty_asdict_def get_str_def strs_roundtrip)

lemma opt_roundtrip: "x \<noteq> Some JNull \<Longrightarrow> json_opt (opt_json x) = x"
  by (cases x) (auto simp: json_opt_def opt_json_def split: json.splits)

lemma report_roundtrip:
  assumes "coverage_pct r \<noteq> Some JNull" and "files_total r \<noteq> Some JNull"
  shows "report_of_mirror (asdict r) = Some r"
  using assms
  by (simp add: report_of_mirror_def asdict_def get_str_def findings_roundtrip
      uncertainty_roundtrip opt_roundtrip)

lemma build_report_optional_fields:
  assumes "build_report L doc ip now = Inr rep"
  shows "coverage_pct rep \<noteq> Some JNull \<and> files_total rep \<noteq> Some JNull"
proof (cases doc)
  case (JDict d)
  with assms show ?thesis
    by (auto simp: build_report_dict simp del: safe_get.simps split: sum.splits if_splits)
qed (use assms in \<open>simp_all add: build_report_not_dict\<close>)

theorem mirror_roundtrip:
  assumes "build_report L doc ip now = Inr rep"
  shows "report_of_mirror (asdict rep) = Some rep"
  using build_report_optional_fields[OF assms] by (simp add: report_roundtrip)

end
